theory Spec2Isabelle
  imports Complex_Main
begin

section \<open>Idle Tribal Game: the core of script.js\<close>

text \<open>
  The game keeps one mutable \<open>state\<close> object and changes it from a one-second tick and from
  four player commands. The model passes the state explicitly and returns the new one.

  Conventions of the model:
  \<^item> A JavaScript number is an exact rational (\<open>rat\<close>); building levels, troop counts and list
    indices are integers (\<open>int\<close>). Rounding of IEEE doubles is outside the model.
  \<^item> \<open>Date.now()\<close> is the parameter \<open>now\<close> of every operation that reads the clock: all reads
    inside one synchronous call return that one value.
  \<^item> \<open>Math.random()\<close> is the parameter \<open>rnd\<close> of \<open>raid\<close>, one draw per resource kind.
  \<^item> Reading a property of \<open>undefined\<close> throws a \<open>TypeError\<close> in JavaScript; operations that
    can do so return \<open>error + state\<close>, with \<open>Inl TypeError\<close> for the throw.
  \<^item> \<open>saveState\<close> and the \<open>render\<close> functions do not change \<open>state\<close> and are left out.
\<close>

subsection \<open>Data\<close>

datatype resource = Wood | Stone | Food

datatype error = TypeError

text \<open>
  Every object literal keyed by resource kind in the source (\<open>baseCost\<close>, \<open>TRAIN_COST\<close>,
  \<open>RAID_REWARD_RANGES\<close>, \<open>resources\<close>) lists its keys in this order, which is the order of
  \<open>Object.keys\<close>.
\<close>

definition resource_keys :: "resource list" where
  "resource_keys = [Wood, Stone, Food]"

record building_def =
  key :: string
  name :: string
  resource :: "resource option"
  baseRate :: rat
  baseCost :: "resource \<Rightarrow> rat"
  baseTime :: rat

text \<open>An object \<open>{ wood: w, stone: s, food: f }\<close>.\<close>

fun obj :: "rat \<Rightarrow> rat \<Rightarrow> rat \<Rightarrow> resource \<Rightarrow> rat" where
  "obj w s f Wood = w"
| "obj w s f Stone = s"
| "obj w s f Food = f"

definition woodcutter :: building_def where
  "woodcutter = \<lparr> key = ''woodcutter'', name = ''Woodcutter'', resource = Some Wood,
     baseRate = 1, baseCost = obj 0 20 10, baseTime = 5 \<rparr>"

definition quarry :: building_def where
  "quarry = \<lparr> key = ''quarry'', name = ''Quarry'', resource = Some Stone,
     baseRate = 0.8, baseCost = obj 20 0 10, baseTime = 5 \<rparr>"

definition farm :: building_def where
  "farm = \<lparr> key = ''farm'', name = ''Farm'', resource = Some Food,
     baseRate = 0.5, baseCost = obj 20 10 0, baseTime = 5 \<rparr>"

definition barracks :: building_def where
  "barracks = \<lparr> key = ''barracks'', name = ''Barracks'', resource = None,
     baseRate = 0, baseCost = obj 100 50 50, baseTime = 8 \<rparr>"

text \<open>
  \<open>BUILDING_TYPES[type]\<close>: the definition stored under one of the four keys, \<open>None\<close>
  (\<open>undefined\<close>) for any other string. Names inherited from \<open>Object.prototype\<close> are not
  modelled.
\<close>

definition BUILDING_TYPES :: "string \<Rightarrow> building_def option" where
  "BUILDING_TYPES t =
     (if t = ''woodcutter'' then Some woodcutter
      else if t = ''quarry'' then Some quarry
      else if t = ''farm'' then Some farm
      else if t = ''barracks'' then Some barracks
      else None)"

definition COST_MULTIPLIER :: rat where
  "COST_MULTIPLIER = 1.5"

definition TIME_MULTIPLIER :: rat where
  "TIME_MULTIPLIER = 1.6"

definition TRAIN_COST :: "resource \<Rightarrow> rat" where
  "TRAIN_COST = obj 15 15 10"

definition BASE_TRAIN_TIME :: rat where
  "BASE_TRAIN_TIME = 5000"

definition RAID_COST_TROOPS :: int where
  "RAID_COST_TROOPS = 5"

definition RAID_TIME :: rat where
  "RAID_TIME = 30000"

fun RAID_REWARD_RANGES :: "resource \<Rightarrow> rat \<times> rat" where
  "RAID_REWARD_RANGES Wood = (20, 40)"
| "RAID_REWARD_RANGES Stone = (20, 40)"
| "RAID_REWARD_RANGES Food = (10, 30)"

record building =
  b_type :: string
  b_level :: int

text \<open>
  The three queue slots hold \<open>{ startTime, endTime }\<close>; the construction job adds
  \<open>type\<close>, \<open>targetIndex\<close> (\<open>null\<close> for a new building) and \<open>level\<close>, the raid job adds
  \<open>reward\<close>, an object whose keys are resource kinds.
\<close>

record job =
  startTime :: rat
  endTime :: rat

record construction_job = job +
  q_type :: string
  targetIndex :: "int option"
  q_level :: int

record raid_job = job +
  reward :: "resource \<Rightarrow> rat option"

record state =
  resources :: "resource \<Rightarrow> rat"
  buildings :: "building list"
  queue :: "construction_job option"
  troops :: int
  trainingQueue :: "job option"
  raidQueue :: "raid_job option"
  lastUpdate :: rat

definition DEFAULT_STATE :: "rat \<Rightarrow> state" where
  "DEFAULT_STATE t0 = \<lparr> resources = obj 50 50 50, buildings = [], queue = None, troops = 0,
     trainingQueue = None, raidQueue = None, lastUpdate = t0 \<rparr>"

subsection \<open>Arithmetic of the source\<close>

text \<open>\<open>Math.pow\<close> at an integer exponent, \<open>Math.ceil\<close> and \<open>Math.floor\<close>.\<close>

definition Math_pow :: "rat \<Rightarrow> int \<Rightarrow> rat" where
  "Math_pow x n = (if 0 \<le> n then x ^ nat n else 1 / x ^ nat (- n))"

definition Math_ceil :: "rat \<Rightarrow> rat" where
  "Math_ceil x = of_int \<lceil>x\<rceil>"

definition Math_floor :: "rat \<Rightarrow> rat" where
  "Math_floor x = of_int \<lfloor>x\<rfloor>"

definition bind_err :: "error + 'a \<Rightarrow> ('a \<Rightarrow> error + 'b) \<Rightarrow> error + 'b" where
  "bind_err m f = (case m of Inl e \<Rightarrow> Inl e | Inr x \<Rightarrow> f x)"

text \<open>\<open>xs[i]\<close>: \<open>None\<close> (\<open>undefined\<close>) outside the list.\<close>

definition at_index :: "'a list \<Rightarrow> int \<Rightarrow> 'a option" where
  "at_index xs i = (if 0 \<le> i \<and> i < int (length xs) then Some (xs ! nat i) else None)"

subsection \<open>Economy calculator\<close>

definition getProduction :: "building \<Rightarrow> error + rat" where
  "getProduction b =
     (case BUILDING_TYPES (b_type b) of
        None \<Rightarrow> Inl TypeError
      | Some d \<Rightarrow> Inr (baseRate d * of_int (b_level b)))"

definition calculateCost :: "string \<Rightarrow> int \<Rightarrow> error + (resource \<Rightarrow> rat)" where
  "calculateCost t lvl =
     (case BUILDING_TYPES t of
        None \<Rightarrow> Inl TypeError
      | Some d \<Rightarrow>
          (let multiplier = Math_pow COST_MULTIPLIER (lvl - 1)
           in Inr (\<lambda>res. Math_ceil (baseCost d res * multiplier))))"

definition calculateTime :: "string \<Rightarrow> int \<Rightarrow> error + rat" where
  "calculateTime t lvl =
     (case BUILDING_TYPES t of
        None \<Rightarrow> Inl TypeError
      | Some d \<Rightarrow>
          (let seconds = baseTime d * Math_pow TIME_MULTIPLIER (lvl - 1)
           in Inr (Math_ceil (seconds * 1000))))"

subsection \<open>Resource accrual\<close>

text \<open>The body of the \<open>forEach\<close> over \<open>state.buildings\<close> in \<open>updateResources\<close>.\<close>

fun accrue :: "rat \<Rightarrow> building list \<Rightarrow> (resource \<Rightarrow> rat) \<Rightarrow> error + (resource \<Rightarrow> rat)" where
  "accrue deltaSeconds [] pool = Inr pool"
| "accrue deltaSeconds (b # bs) pool =
     (case BUILDING_TYPES (b_type b) of
        None \<Rightarrow> Inl TypeError
      | Some d \<Rightarrow>
          (case resource d of
             None \<Rightarrow> accrue deltaSeconds bs pool
           | Some r \<Rightarrow>
               if baseRate d \<le> 0 then accrue deltaSeconds bs pool
               else accrue deltaSeconds bs
                      (pool (r := pool r + baseRate d * of_int (b_level b) * deltaSeconds))))"

definition updateResources :: "rat \<Rightarrow> state \<Rightarrow> error + state" where
  "updateResources now s =
     (let deltaSeconds = (now - lastUpdate s) / 1000
      in if deltaSeconds \<le> 0 then Inr s
         else bind_err (accrue deltaSeconds (buildings s) (resources s))
                (\<lambda>pool. Inr (s \<lparr> resources := pool, lastUpdate := now \<rparr>)))"

subsection \<open>Affordability\<close>

definition hasResources :: "(resource \<Rightarrow> rat) \<Rightarrow> state \<Rightarrow> bool" where
  "hasResources cost s = list_all (\<lambda>res. resources s res \<ge> cost res) resource_keys"

definition deductResources :: "(resource \<Rightarrow> rat) \<Rightarrow> state \<Rightarrow> state" where
  "deductResources cost s =
     s \<lparr> resources := fold (\<lambda>res pool. pool (res := pool res - cost res)) resource_keys
                         (resources s) \<rparr>"

subsection \<open>Construction queue\<close>

definition checkQueue :: "rat \<Rightarrow> state \<Rightarrow> error + state" where
  "checkQueue now s =
     (case queue s of
        None \<Rightarrow> Inr s
      | Some q \<Rightarrow>
          if now \<ge> endTime q then
            (case targetIndex q of
               None \<Rightarrow>
                 Inr (s \<lparr> buildings := buildings s @ [\<lparr> b_type = q_type q, b_level = q_level q \<rparr>],
                         queue := None \<rparr>)
             | Some i \<Rightarrow>
                 (case at_index (buildings s) i of
                    None \<Rightarrow> Inl TypeError
                  | Some b \<Rightarrow>
                      Inr (s \<lparr> buildings := (buildings s) [nat i := b \<lparr> b_level := q_level q \<rparr>],
                              queue := None \<rparr>)))
          else Inr s)"

definition buildNew :: "string \<Rightarrow> rat \<Rightarrow> state \<Rightarrow> error + state" where
  "buildNew t now s =
     (if queue s \<noteq> None then Inr s
      else bind_err (calculateCost t 1) (\<lambda>cost.
        if \<not> hasResources cost s then Inr s
        else bind_err (calculateTime t 1) (\<lambda>duration.
          Inr (deductResources cost s
                \<lparr> queue := Some \<lparr> startTime = now, endTime = now + duration,
                                  q_type = t, targetIndex = None, q_level = 1 \<rparr> \<rparr>))))"

definition upgradeBuilding :: "int \<Rightarrow> rat \<Rightarrow> state \<Rightarrow> error + state" where
  "upgradeBuilding index now s =
     (if queue s \<noteq> None then Inr s
      else case at_index (buildings s) index of
        None \<Rightarrow> Inl TypeError
      | Some b \<Rightarrow>
          (let nextLevel = b_level b + 1
           in bind_err (calculateCost (b_type b) nextLevel) (\<lambda>cost.
                if \<not> hasResources cost s then Inr s
                else bind_err (calculateTime (b_type b) nextLevel) (\<lambda>duration.
                  Inr (deductResources cost s
                        \<lparr> queue := Some \<lparr> startTime = now, endTime = now + duration,
                                          q_type = b_type b, targetIndex = Some index,
                                          q_level = nextLevel \<rparr> \<rparr>)))))"

subsection \<open>Troop training\<close>

definition getTotalBarracksLevel :: "state \<Rightarrow> int" where
  "getTotalBarracksLevel s =
     foldl (\<lambda>sum b. sum + b_level b) 0 (filter (\<lambda>b. b_type b = ''barracks'') (buildings s))"

text \<open>
  The multiplier is 0 only when the barracks levels sum to \<open>-2\<close>, which needs a building of
  negative level; JavaScript's division gives \<open>Infinity\<close> there and HOL's gives 0. The
  statements about the duration assume levels of at least 1.
\<close>

definition calculateTrainingDuration :: "state \<Rightarrow> rat" where
  "calculateTrainingDuration s =
     (let total = getTotalBarracksLevel s;
          multiplier = 1 + 0.5 * of_int total
      in max 1000 (BASE_TRAIN_TIME / multiplier))"

definition trainTroop :: "rat \<Rightarrow> state \<Rightarrow> state" where
  "trainTroop now s =
     (if trainingQueue s \<noteq> None then s
      else if \<not> hasResources TRAIN_COST s then s
      else let duration = calculateTrainingDuration s
           in deductResources TRAIN_COST s
                \<lparr> trainingQueue := Some \<lparr> startTime = now, endTime = now + duration \<rparr> \<rparr>)"

definition checkTrainingQueue :: "rat \<Rightarrow> state \<Rightarrow> state" where
  "checkTrainingQueue now s =
     (case trainingQueue s of
        None \<Rightarrow> s
      | Some q \<Rightarrow>
          if now \<ge> endTime q then s \<lparr> troops := troops s + 1, trainingQueue := None \<rparr>
          else s)"

subsection \<open>Raids\<close>

definition roll :: "(resource \<Rightarrow> rat) \<Rightarrow> resource \<Rightarrow> rat" where
  "roll rnd res =
     (case RAID_REWARD_RANGES res of
        (lo, hi) \<Rightarrow> Math_floor (lo + rnd res * (hi - lo + 1)))"

definition raid :: "(resource \<Rightarrow> rat) \<Rightarrow> rat \<Rightarrow> state \<Rightarrow> state" where
  "raid rnd now s =
     (if raidQueue s \<noteq> None then s
      else if troops s < RAID_COST_TROOPS then s
      else s \<lparr> troops := troops s - RAID_COST_TROOPS,
               raidQueue := Some \<lparr> startTime = now, endTime = now + RAID_TIME,
                                  reward = (\<lambda>res. Some (roll rnd res)) \<rparr> \<rparr>)"

text \<open>The \<open>forEach\<close> over the keys of the stored reward: keys that are absent add nothing.\<close>

definition add_reward :: "(resource \<Rightarrow> rat option) \<Rightarrow> (resource \<Rightarrow> rat) \<Rightarrow> resource \<Rightarrow> rat" where
  "add_reward rw pool =
     fold (\<lambda>res p. case rw res of None \<Rightarrow> p | Some v \<Rightarrow> p (res := p res + v)) resource_keys pool"

definition checkRaidQueue :: "rat \<Rightarrow> state \<Rightarrow> state" where
  "checkRaidQueue now s =
     (case raidQueue s of
        None \<Rightarrow> s
      | Some q \<Rightarrow>
          if now \<ge> endTime q
          then s \<lparr> resources := add_reward (reward q) (resources s), raidQueue := None \<rparr>
          else s)"

subsection \<open>The tick\<close>


subsection \<open>Vocabulary of the statements\<close>

text \<open>
  A building instance refers to one of the four definitions: \<open>known_buildings\<close> says so for
  the building list of a state.
\<close>

definition known_buildings :: "state \<Rightarrow> bool" where
  "known_buildings s = list_all (\<lambda>b. BUILDING_TYPES (b_type b) \<noteq> None) (buildings s)"

text \<open>
  The accrual as the specification words it: every building whose type has a produced
  resource \<open>r\<close> and a positive base rate contributes \<open>baseRate * level * deltaSeconds\<close> to
  the pool entry of \<open>r\<close>.
\<close>

definition producer_of :: "resource \<Rightarrow> building \<Rightarrow> bool" where
  "producer_of r b =
     (case BUILDING_TYPES (b_type b) of
        None \<Rightarrow> False
      | Some d \<Rightarrow> resource d = Some r \<and> 0 < baseRate d)"

definition base_rate :: "building \<Rightarrow> rat" where
  "base_rate b = (case BUILDING_TYPES (b_type b) of None \<Rightarrow> 0 | Some d \<Rightarrow> baseRate d)"

definition accrual_spec :: "rat \<Rightarrow> building list \<Rightarrow> resource \<Rightarrow> rat" where
  "accrual_spec deltaSeconds bs r =
     sum_list (map (\<lambda>b. base_rate b * of_int (b_level b) * deltaSeconds)
                   (filter (producer_of r) bs))"

text \<open>Accrual at each timestamp of a list in turn: an interval split into several ticks.\<close>

fun advance_all :: "rat list \<Rightarrow> state \<Rightarrow> error + state" where
  "advance_all [] s = Inr s"
| "advance_all (t # ts) s = bind_err (updateResources t s) (advance_all ts)"

text \<open>A state used to run the statements on: a woodcutter of level 3 and a barracks.\<close>

definition village :: state where
  "village = DEFAULT_STATE 0 \<lparr> buildings :=
     [\<lparr> b_type = ''woodcutter'', b_level = 3 \<rparr>, \<lparr> b_type = ''barracks'', b_level = 1 \<rparr>] \<rparr>"

text \<open>The same village with a due job in each of the three queue slots.\<close>

definition busy_village :: state where
  "busy_village = village \<lparr>
     queue := Some \<lparr> startTime = 0, endTime = 5000, q_type = ''woodcutter'',
                     targetIndex = None, q_level = 1 \<rparr>,
     trainingQueue := Some \<lparr> startTime = 0, endTime = 5000 \<rparr>,
     raidQueue := Some \<lparr> startTime = 0, endTime = 30000,
                         reward = (\<lambda>res. Some (obj 25 40 10 res)) \<rparr> \<rparr>"

text \<open>
  A state is well formed when its buildings and its construction job name known building
  types and the target index of an upgrade job lies inside the building list. Every state
  that the operations build from such a state is again well formed.
\<close>

definition wf_state :: "state \<Rightarrow> bool" where
  "wf_state s =
     (known_buildings s \<and>
      (case queue s of
         None \<Rightarrow> True
       | Some q \<Rightarrow>
           BUILDING_TYPES (q_type q) \<noteq> None \<and>
           (case targetIndex q of
              None \<Rightarrow> True
            | Some i \<Rightarrow> 0 \<le> i \<and> i < int (length (buildings s)))))"


text \<open>The draws of \<open>Math.random()\<close> lie in the interval from 0 (included) to 1 (excluded).\<close>

definition unit_draws :: "(resource \<Rightarrow> rat) \<Rightarrow> bool" where
  "unit_draws rnd = list_all (\<lambda>res. 0 \<le> rnd res \<and> rnd res < 1) resource_keys"

text \<open>The amount that a stored reward holds for a resource kind, 0 for an absent key.\<close>

definition reward_amount :: "(resource \<Rightarrow> rat option) \<Rightarrow> resource \<Rightarrow> rat" where
  "reward_amount rw res = (case rw res of None \<Rightarrow> 0 | Some v \<Rightarrow> v)"

text \<open>The village with 7 troops, enough for one raid.\<close>

definition veterans :: state where
  "veterans = village \<lparr> troops := 7 \<rparr>"

text \<open>
  The bounds of the non-negativity invariant, and what else a state must satisfy for the
  operations to keep them: levels of at least 1 in the building list and in the pending
  construction job, and no negative amount in the pending raid reward.
\<close>

definition nonneg :: "state \<Rightarrow> bool" where
  "nonneg s = (list_all (\<lambda>res. 0 \<le> resources s res) resource_keys \<and> 0 \<le> troops s)"

definition levels_ok :: "state \<Rightarrow> bool" where
  "levels_ok s =
     (list_all (\<lambda>b. 1 \<le> b_level b) (buildings s) \<and>
      (case queue s of None \<Rightarrow> True | Some q \<Rightarrow> 1 \<le> q_level q))"

definition reward_ok :: "state \<Rightarrow> bool" where
  "reward_ok s =
     (case raidQueue s of
        None \<Rightarrow> True
      | Some q \<Rightarrow> list_all (\<lambda>res. 0 \<le> reward_amount (reward q) res) resource_keys)"

definition sound_state :: "state \<Rightarrow> bool" where
  "sound_state s = (wf_state s \<and> levels_ok s \<and> reward_ok s)"

text \<open>The eight core operations, with the arguments of the commands.\<close>

datatype operation =
    UpdateResources
  | CheckQueue
  | CheckTrainingQueue
  | CheckRaidQueue
  | BuildNew string
  | UpgradeBuilding int
  | TrainTroop
  | Raid "resource \<Rightarrow> rat"

fun perform :: "operation \<Rightarrow> rat \<Rightarrow> state \<Rightarrow> error + state" where
  "perform UpdateResources now s = updateResources now s"
| "perform CheckQueue now s = checkQueue now s"
| "perform CheckTrainingQueue now s = Inr (checkTrainingQueue now s)"
| "perform CheckRaidQueue now s = Inr (checkRaidQueue now s)"
| "perform (BuildNew t) now s = buildNew t now s"
| "perform (UpgradeBuilding index) now s = upgradeBuilding index now s"
| "perform TrainTroop now s = Inr (trainTroop now s)"
| "perform (Raid rnd) now s = Inr (raid rnd now s)"

fun fair_draws :: "operation \<Rightarrow> bool" where
  "fair_draws (Raid rnd) = unit_draws rnd"
| "fair_draws _ = True"

text \<open>
  The two calls that throw: with an idle construction queue, a new building of an unknown
  type and an upgrade of an index outside the building list.
\<close>

fun misuse :: "operation \<Rightarrow> state \<Rightarrow> bool" where
  "misuse (BuildNew t) s = (queue s = None \<and> BUILDING_TYPES t = None)"
| "misuse (UpgradeBuilding index) s = (queue s = None \<and> at_index (buildings s) index = None)"
| "misuse _ s = False"

text \<open>
  A run of operations, each at its own time. \<open>buildNew\<close> and \<open>upgradeBuilding\<close> throw
  before they change anything, so after a throw the state is as it was and the run goes on;
  the other operations do not throw on the states that such a run reaches.
\<close>

fun run_ops :: "(operation \<times> rat) list \<Rightarrow> state \<Rightarrow> state" where
  "run_ops [] s = s"
| "run_ops ((opn, now) # rest) s =
     run_ops rest (case perform opn now s of Inl e \<Rightarrow> s | Inr s' \<Rightarrow> s')"

text \<open>A stored state with an empty pool and a pending raid whose reward takes 10 wood.\<close>

definition indebted :: state where
  "indebted = DEFAULT_STATE 0 \<lparr> resources := obj 0 0 0,
     raidQueue := Some \<lparr> startTime = 0, endTime = 30000,
                         reward = (\<lambda>res. Some (obj (- 10) 0 0 res)) \<rparr> \<rparr>"

section \<open>Properties\<close>

subsection \<open>Cost at a level\<close>



lemma BUILDING_TYPES_cases:
  assumes "BUILDING_TYPES t = Some d"
  shows "d = woodcutter \<or> d = quarry \<or> d = farm \<or> d = barracks"
  using assms by (auto simp: BUILDING_TYPES_def split: if_splits)

lemma baseCost_integral:
  assumes "BUILDING_TYPES t = Some d"
  shows "of_int \<lceil>baseCost d res\<rceil> = baseCost d res"
  using BUILDING_TYPES_cases [OF assms]
  by (cases res) (auto simp: woodcutter_def quarry_def farm_def barracks_def)

lemma calculateCost_known:
  assumes "BUILDING_TYPES t = Some d"
  shows "calculateCost t L = Inr (\<lambda>res. Math_ceil (baseCost d res * Math_pow (3 / 2) (L - 1)))"
  using assms by (simp add: calculateCost_def COST_MULTIPLIER_def)




text \<open>
  The tolerance of one unit is needed: for the farm, the stone cost of level 4 is 34, while
  \<open>ceil\<close> of 1.5 times the stone cost of level 3 is 35.
\<close>

lemma calculateCost_recurrence_not_exact:
  "calculateCost ''farm'' 3 = Inr (obj 45 23 0) \<and> calculateCost ''farm'' 4 = Inr (obj 68 34 0)
   \<and> Math_ceil (obj 45 23 0 Stone * (3 / 2)) = 35"
proof -
  have h: "BUILDING_TYPES ''farm'' = Some farm" by (simp add: BUILDING_TYPES_def)
  have a: "(\<lambda>res. Math_ceil (baseCost farm res * Math_pow (3 / 2) (3 - 1))) = obj 45 23 0"
  proof (rule ext)
    fix res show "Math_ceil (baseCost farm res * Math_pow (3 / 2) (3 - 1)) = obj 45 23 0 res"
      by (cases res) (simp_all add: farm_def Math_ceil_def Math_pow_def power_divide ceiling_eq_iff)
  qed
  have b: "(\<lambda>res. Math_ceil (baseCost farm res * Math_pow (3 / 2) (4 - 1))) = obj 68 34 0"
  proof (rule ext)
    fix res show "Math_ceil (baseCost farm res * Math_pow (3 / 2) (4 - 1)) = obj 68 34 0 res"
      by (cases res) (simp_all add: farm_def Math_ceil_def Math_pow_def power_divide ceiling_eq_iff)
  qed
  have c: "Math_ceil (obj 45 23 0 Stone * (3 / 2)) = 35"
    by (simp add: Math_ceil_def ceiling_eq_iff)
  show ?thesis using a b c by (simp add: calculateCost_known [OF h])
qed

subsection \<open>Training duration\<close>

lemma foldl_add_level:
  "foldl (\<lambda>sum b. sum + b_level b) acc bs = acc + sum_list (map b_level bs)"
  by (induction bs arbitrary: acc) simp_all

lemma getTotalBarracksLevel_sum:
  "getTotalBarracksLevel s =
     sum_list (map b_level (filter (\<lambda>b. b_type b = ''barracks'') (buildings s)))"
  by (simp add: getTotalBarracksLevel_def foldl_add_level)

lemma sum_list_levels_nonneg:
  "list_all (\<lambda>b. 1 \<le> b_level b) bs \<Longrightarrow> 0 \<le> sum_list (map b_level (filter P bs))"
  by (induction bs) auto

text \<open>
  Claim C6. With building levels of at least 1, the training duration is
  \<open>max 1000 (5000 / (1 + 0.5 * total))\<close>, where \<open>total\<close> is the sum of the levels of the
  buildings whose type is barracks; the divisor is at least 1; without barracks the duration is
  5000 ms, and with a total barracks level of 2 it is 2500 ms.
\<close>

theorem calculateTrainingDuration_formula:
  assumes "list_all (\<lambda>b. 1 \<le> b_level b) (buildings s)"
  shows "getTotalBarracksLevel s =
           sum_list (map b_level (filter (\<lambda>b. b_type b = ''barracks'') (buildings s)))
         \<and> 1 \<le> 1 + (1 / 2) * rat_of_int (getTotalBarracksLevel s)
         \<and> calculateTrainingDuration s =
             max 1000 (5000 / (1 + (1 / 2) * of_int (getTotalBarracksLevel s)))
         \<and> (filter (\<lambda>b. b_type b = ''barracks'') (buildings s) = []
              \<longrightarrow> calculateTrainingDuration s = 5000)
         \<and> (getTotalBarracksLevel s = 2 \<longrightarrow> calculateTrainingDuration s = 2500)"
proof -
  have "0 \<le> getTotalBarracksLevel s"
    unfolding getTotalBarracksLevel_sum using assms by (rule sum_list_levels_nonneg)
  then have pos: "1 \<le> 1 + (1 / 2) * rat_of_int (getTotalBarracksLevel s)" by simp
  have dur: "calculateTrainingDuration s =
      max 1000 (5000 / (1 + (1 / 2) * of_int (getTotalBarracksLevel s)))"
    by (simp add: calculateTrainingDuration_def BASE_TRAIN_TIME_def Let_def)
  have none: "calculateTrainingDuration s = 5000"
    if "filter (\<lambda>b. b_type b = ''barracks'') (buildings s) = []"
    using that unfolding dur getTotalBarracksLevel_sum by simp
  have two: "calculateTrainingDuration s = 2500" if "getTotalBarracksLevel s = 2"
    unfolding dur that by simp
  show ?thesis using getTotalBarracksLevel_sum pos dur none two by blast
qed

theorem calculateTrainingDuration_formula_witness:
  "calculateTrainingDuration (DEFAULT_STATE 0) = 5000
   \<and> calculateTrainingDuration
        (DEFAULT_STATE 0 \<lparr> buildings := [\<lparr> b_type = ''barracks'', b_level = 2 \<rparr>] \<rparr>) = 2500
   \<and> calculateTrainingDuration
        (DEFAULT_STATE 0 \<lparr> buildings := [\<lparr> b_type = ''barracks'', b_level = 1 \<rparr>,
           \<lparr> b_type = ''farm'', b_level = 7 \<rparr>, \<lparr> b_type = ''barracks'', b_level = 1 \<rparr>] \<rparr>) = 2500"
  using calculateTrainingDuration_formula [of "DEFAULT_STATE 0"]
    calculateTrainingDuration_formula
      [of "DEFAULT_STATE 0 \<lparr> buildings := [\<lparr> b_type = ''barracks'', b_level = 2 \<rparr>] \<rparr>"]
    calculateTrainingDuration_formula
      [of "DEFAULT_STATE 0 \<lparr> buildings := [\<lparr> b_type = ''barracks'', b_level = 1 \<rparr>,
           \<lparr> b_type = ''farm'', b_level = 7 \<rparr>, \<lparr> b_type = ''barracks'', b_level = 1 \<rparr>] \<rparr>"]
  by (simp add: DEFAULT_STATE_def)

subsection \<open>Accrual\<close>

lemma accrual_spec_Nil: "accrual_spec d [] r = 0"
  by (simp add: accrual_spec_def)

lemma accrual_spec_Cons:
  "accrual_spec d (b # bs) r =
     (if producer_of r b then base_rate b * of_int (b_level b) * d else 0) + accrual_spec d bs r"
  by (simp add: accrual_spec_def)

lemma accrual_spec_add:
  "accrual_spec (d1 + d2) bs r = accrual_spec d1 bs r + accrual_spec d2 bs r"
  by (induction bs) (simp_all add: accrual_spec_Nil accrual_spec_Cons distrib_left)

lemma accrue_closed_form:
  assumes "list_all (\<lambda>b. BUILDING_TYPES (b_type b) \<noteq> None) bs"
  shows "accrue d bs pool = Inr (\<lambda>r. pool r + accrual_spec d bs r)"
  using assms
proof (induction bs arbitrary: pool)
  case Nil
  show ?case by (simp add: accrual_spec_Nil)
next
  case (Cons b bs)
  from Cons.prems obtain df where df: "BUILDING_TYPES (b_type b) = Some df" by auto
  from Cons.prems have rest: "list_all (\<lambda>b. BUILDING_TYPES (b_type b) \<noteq> None) bs" by simp
  show ?case
  proof (cases "resource df")
    case None
    then have "\<not> producer_of r b" for r by (simp add: producer_of_def df)
    then show ?thesis using None df Cons.IH [OF rest] by (simp add: accrual_spec_Cons)
  next
    case (Some r0)
    show ?thesis
    proof (cases "baseRate df \<le> 0")
      case True
      then have "\<not> producer_of r b" for r by (simp add: producer_of_def df)
      then show ?thesis using True Some df Cons.IH [OF rest] by (simp add: accrual_spec_Cons)
    next
      case False
      then have p: "producer_of r b \<longleftrightarrow> r = r0" for r
        using Some by (auto simp: producer_of_def df)
      have br: "base_rate b = baseRate df" by (simp add: base_rate_def df)
      show ?thesis using False Some df Cons.IH [OF rest]
        by (simp add: accrual_spec_Cons p br fun_eq_iff)
    qed
  qed
qed

lemma updateResources_noop:
  "(now - lastUpdate s) / 1000 \<le> 0 \<Longrightarrow> updateResources now s = Inr s"
  by (simp add: updateResources_def)

lemma updateResources_closed_form:
  assumes "known_buildings s" and "0 < (now - lastUpdate s) / 1000"
  shows "updateResources now s =
           Inr (s \<lparr> resources := \<lambda>r. resources s r
                                     + accrual_spec ((now - lastUpdate s) / 1000) (buildings s) r,
                    lastUpdate := now \<rparr>)"
  using assms accrue_closed_form [of "buildings s"]
  by (simp add: updateResources_def known_buildings_def bind_err_def Let_def)

lemma updateResources_known:
  assumes "known_buildings s"
  shows "\<exists>s'. updateResources now s = Inr s' \<and> buildings s' = buildings s"
proof (cases "(now - lastUpdate s) / 1000 \<le> 0")
  case True
  then show ?thesis by (simp add: updateResources_noop)
next
  case False
  then show ?thesis using updateResources_closed_form [OF assms, of now] by simp
qed

lemma updateResources_twice:
  assumes "known_buildings s" and "t \<le> now"
  shows "bind_err (updateResources t s) (updateResources now) = updateResources now s"
proof (cases "(t - lastUpdate s) / 1000 \<le> 0")
  case True
  then show ?thesis by (simp add: updateResources_noop bind_err_def)
next
  case False
  then have d1: "0 < (t - lastUpdate s) / 1000" by simp
  then have d: "0 < (now - lastUpdate s) / 1000" using assms(2) by simp
  let ?s1 = "s \<lparr> resources := \<lambda>r. resources s r
                 + accrual_spec ((t - lastUpdate s) / 1000) (buildings s) r, lastUpdate := t \<rparr>"
  have first: "updateResources t s = Inr ?s1"
    using updateResources_closed_form [OF assms(1) d1] .
  have k1: "known_buildings ?s1" using assms(1) by (simp add: known_buildings_def)
  show ?thesis
  proof (cases "now = t")
    case True
    then show ?thesis using first by (simp add: bind_err_def updateResources_noop)
  next
    case False
    then have d2: "0 < (now - lastUpdate ?s1) / 1000" using assms(2) by simp
    have split: "(now - lastUpdate s) / 1000 = (t - lastUpdate s) / 1000 + (now - t) / 1000"
      by (simp add: diff_divide_distrib)
    show ?thesis
      unfolding first updateResources_closed_form [OF assms(1) d]
      using updateResources_closed_form [OF k1 d2]
      by (simp add: bind_err_def split accrual_spec_add add.assoc)
  qed
qed

lemma advance_all_then_update:
  assumes "known_buildings s" and "\<forall>t\<in>set ts. t \<le> now"
  shows "bind_err (advance_all ts s) (updateResources now) = updateResources now s"
  using assms
proof (induction ts arbitrary: s)
  case Nil
  show ?case by (simp add: bind_err_def)
next
  case (Cons t ts)
  from updateResources_known [OF Cons.prems(1), of t]
  obtain s1 where s1: "updateResources t s = Inr s1" "buildings s1 = buildings s" by blast
  then have k1: "known_buildings s1" using Cons.prems(1) by (simp add: known_buildings_def)
  have "bind_err (advance_all (t # ts) s) (updateResources now)
          = bind_err (advance_all ts s1) (updateResources now)"
    by (simp add: s1 bind_err_def)
  also have "\<dots> = updateResources now s1" using Cons.IH [OF k1] Cons.prems(2) by simp
  also have "\<dots> = bind_err (updateResources t s) (updateResources now)"
    by (simp add: s1 bind_err_def)
  also have "\<dots> = updateResources now s"
    using updateResources_twice [OF Cons.prems(1)] Cons.prems(2) by simp
  finally show ?case .
qed

text \<open>
  Claim C1. If \<open>(now - lastUpdate) / 1000 \<le> 0\<close>, \<open>updateResources\<close> returns the state as it
  is, \<open>lastUpdate\<close> included. Otherwise, on a building list of known types, it adds to every
  pool entry \<open>baseRate * level * deltaSeconds\<close> for each building that produces that resource
  at a positive base rate, skips the other buildings without an error, and sets
  \<open>lastUpdate\<close> to \<open>now\<close>. Splitting the interval into any number of earlier ticks gives
  the same state as one call at \<open>now\<close>, whatever the length of the interval.
\<close>

theorem updateResources_accrual:
  "((now - lastUpdate s) / 1000 \<le> 0 \<longrightarrow> updateResources now s = Inr s)
   \<and> (known_buildings s \<and> 0 < (now - lastUpdate s) / 1000 \<longrightarrow>
        updateResources now s =
          Inr (s \<lparr> resources := \<lambda>r. resources s r
                     + accrual_spec ((now - lastUpdate s) / 1000) (buildings s) r,
                   lastUpdate := now \<rparr>))
   \<and> (known_buildings s \<and> (\<forall>t\<in>set ts. t \<le> now) \<longrightarrow>
        bind_err (advance_all ts s) (updateResources now) = updateResources now s)"
  using updateResources_noop [of now s] updateResources_closed_form [of s now]
    advance_all_then_update [of s ts now]
  by blast

theorem updateResources_accrual_witness:
  "updateResources 0 village = Inr village
   \<and> updateResources 100000000 village =
       Inr (village \<lparr> resources := obj 300050 50 50, lastUpdate := 100000000 \<rparr>)
   \<and> bind_err (advance_all [1000, 600000, 59000] village) (updateResources 100000000)
       = updateResources 100000000 village"
proof -
  have k: "known_buildings village"
    by (simp add: village_def known_buildings_def BUILDING_TYPES_def DEFAULT_STATE_def)
  have r: "(\<lambda>r. resources village r
             + accrual_spec ((100000000 - lastUpdate village) / 1000) (buildings village) r)
           = obj 300050 50 50"
  proof (rule ext)
    fix r show "resources village r
             + accrual_spec ((100000000 - lastUpdate village) / 1000) (buildings village) r
           = obj 300050 50 50 r"
      by (cases r)
        (simp_all add: village_def DEFAULT_STATE_def accrual_spec_def producer_of_def
          base_rate_def BUILDING_TYPES_def woodcutter_def barracks_def)
  qed
  have l: "lastUpdate village = 0" by (simp add: village_def DEFAULT_STATE_def)
  show ?thesis
    using k updateResources_accrual [of 0 village "[]"]
      updateResources_accrual [of 100000000 village "[1000, 600000, 59000]"]
    unfolding r
    by (simp add: l)
qed

subsection \<open>Reconciling the queues\<close>

lemma checkQueue_idem: "bind_err (checkQueue now s) (checkQueue now) = checkQueue now s"
  by (simp add: checkQueue_def bind_err_def split: option.splits)

lemma checkTrainingQueue_idem:
  "checkTrainingQueue now (checkTrainingQueue now s) = checkTrainingQueue now s"
  by (simp add: checkTrainingQueue_def split: option.splits)

lemma checkRaidQueue_idem: "checkRaidQueue now (checkRaidQueue now s) = checkRaidQueue now s"
  by (simp add: checkRaidQueue_def split: option.splits)

lemma checkQueue_due_clears:
  assumes "queue s = Some q" and "endTime q \<le> now" and "checkQueue now s = Inr s'"
  shows "queue s' = None \<and> checkQueue now s' = Inr s'"
  using assms by (auto simp: checkQueue_def split: option.splits)

lemma checkTrainingQueue_due_clears:
  assumes "trainingQueue s = Some q" and "endTime q \<le> now"
  shows "trainingQueue (checkTrainingQueue now s) = None"
  using assms by (simp add: checkTrainingQueue_def)

lemma checkRaidQueue_due_clears:
  assumes "raidQueue s = Some q" and "endTime q \<le> now"
  shows "raidQueue (checkRaidQueue now s) = None"
  using assms by (simp add: checkRaidQueue_def)

text \<open>
  Claim C3. For each of the three queues, reconciling twice at the same \<open>now\<close> gives the
  state that reconciling once gives (for the construction queue also when the first call
  throws); once a due job has been completed its slot is empty, and a further reconcile at
  the same \<open>now\<close> returns the state as it is.
\<close>

theorem reconcile_idempotent:
  "bind_err (checkQueue now s) (checkQueue now) = checkQueue now s
   \<and> checkTrainingQueue now (checkTrainingQueue now s) = checkTrainingQueue now s
   \<and> checkRaidQueue now (checkRaidQueue now s) = checkRaidQueue now s
   \<and> (\<forall>q s'. queue s = Some q \<and> endTime q \<le> now \<and> checkQueue now s = Inr s'
         \<longrightarrow> queue s' = None \<and> checkQueue now s' = Inr s')
   \<and> (\<forall>q. trainingQueue s = Some q \<and> endTime q \<le> now
         \<longrightarrow> trainingQueue (checkTrainingQueue now s) = None)
   \<and> (\<forall>q. raidQueue s = Some q \<and> endTime q \<le> now
         \<longrightarrow> raidQueue (checkRaidQueue now s) = None)"
  using checkQueue_idem [of now s] checkTrainingQueue_idem [of now s]
    checkRaidQueue_idem [of now s] checkQueue_due_clears [of s _ now]
    checkTrainingQueue_due_clears [of s _ now] checkRaidQueue_due_clears [of s _ now]
  by blast

theorem reconcile_idempotent_witness:
  "(\<exists>s'. checkQueue 30000 busy_village = Inr s' \<and> queue s' = None
         \<and> length (buildings s') = 3 \<and> checkQueue 30000 s' = Inr s')
   \<and> troops (checkTrainingQueue 30000 busy_village) = 1
   \<and> troops (checkTrainingQueue 30000 (checkTrainingQueue 30000 busy_village)) = 1
   \<and> resources (checkRaidQueue 30000 (checkRaidQueue 30000 busy_village)) Wood = 75
   \<and> raidQueue (checkRaidQueue 30000 busy_village) = None"
proof -
  have q: "queue busy_village = Some \<lparr> startTime = 0, endTime = 5000, q_type = ''woodcutter'',
                     targetIndex = None, q_level = 1 \<rparr>"
    by (simp add: busy_village_def)
  have c: "checkQueue 30000 busy_village =
             Inr (busy_village \<lparr> buildings := buildings busy_village
                    @ [\<lparr> b_type = ''woodcutter'', b_level = 1 \<rparr>], queue := None \<rparr>)"
    by (simp add: checkQueue_def q)
  have len: "length (buildings busy_village) = 2"
    by (simp add: busy_village_def village_def)
  have t: "troops (checkTrainingQueue 30000 busy_village) = 1"
    by (simp add: checkTrainingQueue_def busy_village_def village_def DEFAULT_STATE_def)
  have r: "resources (checkRaidQueue 30000 busy_village) Wood = 75"
    by (simp add: checkRaidQueue_def add_reward_def resource_keys_def busy_village_def
          village_def DEFAULT_STATE_def)
  have e: "raidQueue busy_village = Some \<lparr> startTime = 0, endTime = 30000,
                         reward = (\<lambda>res. Some (obj 25 40 10 res)) \<rparr>"
    by (simp add: busy_village_def)
  show ?thesis
    using reconcile_idempotent [of 30000 busy_village] q c len t r e
    by simp
qed

subsection \<open>Building and upgrading\<close>

lemma calculateCost_level_one:
  assumes "BUILDING_TYPES t = Some d"
  shows "calculateCost t 1 = Inr (baseCost d)"
proof -
  have "(\<lambda>res. rat_of_int \<lceil>baseCost d res\<rceil>) = baseCost d"
    by (rule ext) (rule baseCost_integral [OF assms])
  then show ?thesis
    by (simp add: calculateCost_known [OF assms] Math_ceil_def Math_pow_def)
qed

lemma pool_eqI:
  fixes f g :: "resource \<Rightarrow> 'a"
  assumes "f Wood = g Wood" and "f Stone = g Stone" and "f Food = g Food"
  shows "f = g"
proof (rule ext)
  fix r show "f r = g r" using assms by (cases r) simp_all
qed

lemma hasResources_iff:
  "hasResources cost s \<longleftrightarrow>
     cost Wood \<le> resources s Wood \<and> cost Stone \<le> resources s Stone
     \<and> cost Food \<le> resources s Food"
  by (simp add: hasResources_def resource_keys_def)

lemma deductResources_pool:
  "resources (deductResources cost s) = (\<lambda>res. resources s res - cost res)"
  by (rule pool_eqI) (simp_all add: deductResources_def resource_keys_def)

lemma deductResources_frame:
  "buildings (deductResources cost s) = buildings s"
  "queue (deductResources cost s) = queue s"
  "troops (deductResources cost s) = troops s"
  "trainingQueue (deductResources cost s) = trainingQueue s"
  "raidQueue (deductResources cost s) = raidQueue s"
  "lastUpdate (deductResources cost s) = lastUpdate s"
  by (simp_all add: deductResources_def)


lemma checkQueue_new_building:
  assumes "queue s = Some q" and "targetIndex q = None" and "endTime q \<le> t"
  shows "checkQueue t s =
           Inr (s \<lparr> buildings := buildings s @ [\<lparr> b_type = q_type q, b_level = q_level q \<rparr>],
                    queue := None \<rparr>)"
  using assms by (simp add: checkQueue_def)

lemma checkQueue_upgrade:
  assumes "queue s = Some q" and "targetIndex q = Some i" and "endTime q \<le> t"
    and "0 \<le> i" and "i < int (length (buildings s))"
  shows "checkQueue t s =
           Inr (s \<lparr> buildings := (buildings s) [nat i := (buildings s ! nat i) \<lparr> b_level := q_level q \<rparr>],
                    queue := None \<rparr>)"
  using assms by (simp add: checkQueue_def at_index_def)



subsection \<open>Raids\<close>

text \<open>
  Claim C8. With fewer than 5 troops, \<open>raid\<close> returns the state as it is: the troop count,
  the raid slot and every other field are unchanged.
\<close>

theorem raid_troop_floor:
  assumes "troops s < 5"
  shows "raid rnd now s = s"
  using assms by (simp add: raid_def RAID_COST_TROOPS_def)

theorem raid_troop_floor_witness:
  "troops (DEFAULT_STATE 0) < 5
   \<and> raid (\<lambda>res. 1 / 2) 1000 (DEFAULT_STATE 0) = DEFAULT_STATE 0"
proof -
  have h: "troops (DEFAULT_STATE 0) < 5" by (simp add: DEFAULT_STATE_def)
  show ?thesis using h raid_troop_floor [OF h] by simp
qed

lemma add_reward_closed_form:
  "add_reward rw pool = (\<lambda>res. pool res + reward_amount rw res)"
  by (rule pool_eqI)
    (simp_all add: add_reward_def resource_keys_def reward_amount_def split: option.splits)

lemma checkRaidQueue_due:
  assumes "raidQueue s = Some q" and "endTime q \<le> now"
  shows "checkRaidQueue now s =
           s \<lparr> resources := (\<lambda>res. resources s res + reward_amount (reward q) res),
               raidQueue := None \<rparr>"
  using assms by (simp add: checkRaidQueue_def add_reward_closed_form)


lemma raid_launch:
  assumes "5 \<le> troops s" and "raidQueue s = None"
  shows "raid rnd now s =
           s \<lparr> troops := troops s - 5,
               raidQueue := Some \<lparr> startTime = now, endTime = now + 30000,
                                  reward = (\<lambda>res. Some (roll rnd res)) \<rparr> \<rparr>"
  using assms by (simp add: raid_def RAID_COST_TROOPS_def RAID_TIME_def)


text \<open>
  Claim C10. When the raid slot holds a due job, \<open>checkRaidQueue\<close> adds the stored reward to
  the resource pool and empties the raid slot; the troop count, the building list, the
  construction queue, the training queue and \<open>lastUpdate\<close> stay as they are. A raid launched
  with at least 5 troops and completed later leaves 5 troops fewer than before the launch.
\<close>

theorem checkRaidQueue_frame:
  "(raidQueue s = Some q \<and> endTime q \<le> now \<longrightarrow>
      resources (checkRaidQueue now s) = (\<lambda>res. resources s res + reward_amount (reward q) res)
      \<and> raidQueue (checkRaidQueue now s) = None
      \<and> troops (checkRaidQueue now s) = troops s
      \<and> buildings (checkRaidQueue now s) = buildings s
      \<and> queue (checkRaidQueue now s) = queue s
      \<and> trainingQueue (checkRaidQueue now s) = trainingQueue s
      \<and> lastUpdate (checkRaidQueue now s) = lastUpdate s)
   \<and> (5 \<le> troops s0 \<and> raidQueue s0 = None \<and> t0 + 30000 \<le> now \<longrightarrow>
      troops (checkRaidQueue now (raid rnd t0 s0)) = troops s0 - 5)"
proof -
  have frame: "resources (checkRaidQueue now s) = (\<lambda>res. resources s res + reward_amount (reward q) res)
      \<and> raidQueue (checkRaidQueue now s) = None
      \<and> troops (checkRaidQueue now s) = troops s
      \<and> buildings (checkRaidQueue now s) = buildings s
      \<and> queue (checkRaidQueue now s) = queue s
      \<and> trainingQueue (checkRaidQueue now s) = trainingQueue s
      \<and> lastUpdate (checkRaidQueue now s) = lastUpdate s"
    if "raidQueue s = Some q" "endTime q \<le> now"
    unfolding checkRaidQueue_due [OF that] by simp
  have launch: "troops (checkRaidQueue now (raid rnd t0 s0)) = troops s0 - 5"
    if "5 \<le> troops s0" "raidQueue s0 = None" "t0 + 30000 \<le> now"
    unfolding raid_launch [OF that(1,2)] using that(3) by (simp add: checkRaidQueue_def)
  show ?thesis using frame launch by blast
qed

theorem checkRaidQueue_frame_witness:
  "troops (checkRaidQueue 30000 busy_village) = troops busy_village
   \<and> resources (checkRaidQueue 30000 busy_village) Stone = 90
   \<and> raidQueue (checkRaidQueue 30000 busy_village) = None
   \<and> troops (checkRaidQueue 31000 (raid (\<lambda>res. 1 / 2) 1000 veterans)) = 2"
proof -
  let ?q = "\<lparr> startTime = 0, endTime = 30000, reward = (\<lambda>res. Some (obj 25 40 10 res)) \<rparr>"
  have q: "raidQueue busy_village = Some ?q" by (simp add: busy_village_def)
  have r: "resources busy_village Stone = 50"
    by (simp add: busy_village_def village_def DEFAULT_STATE_def)
  have v: "raidQueue veterans = None" "troops veterans = 7"
    by (simp_all add: veterans_def village_def DEFAULT_STATE_def)
  show ?thesis
    using checkRaidQueue_frame [of busy_village ?q 30000 veterans 1000 "\<lambda>res. 1 / 2"]
      checkRaidQueue_frame [of busy_village ?q 31000 veterans 1000 "\<lambda>res. 1 / 2"] q r v
    by (simp add: reward_amount_def)
qed

lemma roll_formula:
  "roll rnd res =
     Math_floor (fst (RAID_REWARD_RANGES res)
       + rnd res * (snd (RAID_REWARD_RANGES res) - fst (RAID_REWARD_RANGES res) + 1))"
  by (simp add: roll_def split: prod.splits)

lemma unit_draws_iff: "unit_draws rnd \<longleftrightarrow> (\<forall>res. 0 \<le> rnd res \<and> rnd res < 1)"
proof
  assume u: "unit_draws rnd"
  show "\<forall>res. 0 \<le> rnd res \<and> rnd res < 1"
  proof
    fix res show "0 \<le> rnd res \<and> rnd res < 1"
      using u by (cases res) (simp_all add: unit_draws_def resource_keys_def)
  qed
next
  assume "\<forall>res. 0 \<le> rnd res \<and> rnd res < 1"
  then show "unit_draws rnd" by (simp add: unit_draws_def resource_keys_def)
qed

lemma floor_in_range:
  fixes x :: rat
  assumes "0 \<le> x" and "x < 1" and "0 \<le> w"
  shows "lo \<le> \<lfloor>rat_of_int lo + x * (rat_of_int w + 1)\<rfloor>"
    and "\<lfloor>rat_of_int lo + x * (rat_of_int w + 1)\<rfloor> \<le> lo + w"
proof -
  have w: "0 \<le> rat_of_int w + 1" using assms(3) by simp
  have "0 \<le> x * (rat_of_int w + 1)" using assms(1) w by (rule mult_nonneg_nonneg)
  then have "rat_of_int lo \<le> rat_of_int lo + x * (rat_of_int w + 1)" by simp
  then show "lo \<le> \<lfloor>rat_of_int lo + x * (rat_of_int w + 1)\<rfloor>" by (simp only: le_floor_iff)
  have "0 < rat_of_int w + 1" using assms(3) by simp
  then have "x * (rat_of_int w + 1) < 1 * (rat_of_int w + 1)"
    using assms(2) by (simp only: mult_strict_right_mono)
  then have "rat_of_int lo + x * (rat_of_int w + 1) < rat_of_int (lo + w + 1)" by simp
  then have "\<lfloor>rat_of_int lo + x * (rat_of_int w + 1)\<rfloor> < lo + w + 1" by (simp only: floor_less_iff)
  then show "\<lfloor>rat_of_int lo + x * (rat_of_int w + 1)\<rfloor> \<le> lo + w" by simp
qed

lemma roll_in_range:
  assumes "unit_draws rnd"
  shows "\<exists>n. roll rnd res = of_int n \<and> fst (RAID_REWARD_RANGES res) \<le> of_int n
              \<and> of_int n \<le> snd (RAID_REWARD_RANGES res)"
proof -
  have x: "0 \<le> rnd res" "rnd res < 1" using assms by (simp_all add: unit_draws_iff)
  obtain lo :: int where lo: "fst (RAID_REWARD_RANGES res) = of_int lo"
      "snd (RAID_REWARD_RANGES res) = of_int (lo + 20)"
    by (cases res) (simp_all add: that [of 20] that [of 10])
  define n where "n = \<lfloor>rat_of_int lo + rnd res * (rat_of_int 20 + 1)\<rfloor>"
  have "roll rnd res = of_int n"
    unfolding roll_formula lo n_def Math_floor_def by simp
  moreover have "lo \<le> n" "n \<le> lo + 20"
    unfolding n_def using floor_in_range [OF x, of 20 lo] by simp_all
  ultimately show ?thesis unfolding lo by (intro exI [of _ n]) (simp only: of_int_le_iff simp_thms)
qed











subsection \<open>The player commands\<close>

lemma calculateTime_known:
  assumes "BUILDING_TYPES t = Some d"
  shows "\<exists>duration. calculateTime t lvl = Inr duration"
  using assms by (simp add: calculateTime_def)

lemma buildNew_busy: "queue s \<noteq> None \<Longrightarrow> buildNew t now s = Inr s"
  by (simp add: buildNew_def)

lemma buildNew_unknown:
  "queue s = None \<Longrightarrow> BUILDING_TYPES t = None \<Longrightarrow> buildNew t now s = Inl TypeError"
  by (simp add: buildNew_def calculateCost_def bind_err_def)

lemma buildNew_known:
  assumes "queue s = None" and "BUILDING_TYPES t = Some d"
  shows "\<exists>cost duration. calculateCost t 1 = Inr cost \<and> calculateTime t 1 = Inr duration
           \<and> buildNew t now s =
               (if hasResources cost s
                then Inr (deductResources cost s
                       \<lparr> queue := Some \<lparr> startTime = now, endTime = now + duration,
                                         q_type = t, targetIndex = None, q_level = 1 \<rparr> \<rparr>)
                else Inr s)"
  using assms by (simp add: buildNew_def calculateCost_def calculateTime_def bind_err_def)

lemma upgradeBuilding_busy: "queue s \<noteq> None \<Longrightarrow> upgradeBuilding i now s = Inr s"
  by (simp add: upgradeBuilding_def)

lemma upgradeBuilding_outside:
  "queue s = None \<Longrightarrow> at_index (buildings s) i = None
     \<Longrightarrow> upgradeBuilding i now s = Inl TypeError"
  by (simp add: upgradeBuilding_def)

lemma upgradeBuilding_known:
  assumes "queue s = None" and "at_index (buildings s) i = Some b"
    and "BUILDING_TYPES (b_type b) = Some d"
  shows "\<exists>cost duration. calculateCost (b_type b) (b_level b + 1) = Inr cost
           \<and> calculateTime (b_type b) (b_level b + 1) = Inr duration
           \<and> upgradeBuilding i now s =
               (if hasResources cost s
                then Inr (deductResources cost s
                       \<lparr> queue := Some \<lparr> startTime = now, endTime = now + duration,
                                         q_type = b_type b, targetIndex = Some i,
                                         q_level = b_level b + 1 \<rparr> \<rparr>)
                else Inr s)"
  using assms
  by (simp add: upgradeBuilding_def calculateCost_def calculateTime_def bind_err_def Let_def)

lemma trainTroop_cases:
  "trainTroop now s =
     (if trainingQueue s = None \<and> hasResources TRAIN_COST s
      then deductResources TRAIN_COST s
             \<lparr> trainingQueue := Some \<lparr> startTime = now,
                                      endTime = now + calculateTrainingDuration s \<rparr> \<rparr>
      else s)"
  by (simp add: trainTroop_def Let_def)

lemma raid_cases:
  "raid rnd now s =
     (if raidQueue s = None \<and> 5 \<le> troops s
      then s \<lparr> troops := troops s - 5,
               raidQueue := Some \<lparr> startTime = now, endTime = now + 30000,
                                  reward = (\<lambda>res. Some (roll rnd res)) \<rparr> \<rparr>
      else s)"
  by (simp add: raid_def RAID_COST_TROOPS_def RAID_TIME_def)

text \<open>
  Claim C7 fails for the two inputs it names: with an idle construction queue,
  \<open>buildNew\<close> of an unknown type reads \<open>baseCost\<close> of \<open>undefined\<close>, and \<open>upgradeBuilding\<close>
  of an index outside the building list reads \<open>level\<close> of \<open>undefined\<close>; both throw.
\<close>

theorem commands_raise_counterexample:
  "buildNew ''castle'' 0 (DEFAULT_STATE 0) = Inl TypeError
   \<and> upgradeBuilding 0 0 (DEFAULT_STATE 0) = Inl TypeError"
  by (simp add: buildNew_def upgradeBuilding_def calculateCost_def BUILDING_TYPES_def
        DEFAULT_STATE_def bind_err_def at_index_def)

text \<open>
  Claim C7, amended. \<open>trainTroop\<close> and \<open>raid\<close> either start their job or return the state
  as it is, and never throw. \<open>buildNew\<close> does so when the construction queue is busy or
  the type is one of the four known types; \<open>upgradeBuilding\<close> does so when the construction
  queue is busy or the index lies inside the building list and the building there has a
  known type. With an idle construction queue, \<open>buildNew\<close> of an unknown type and
  \<open>upgradeBuilding\<close> of an index outside the building list throw a \<open>TypeError\<close>.
\<close>

theorem commands_start_or_noop:
  "(queue s \<noteq> None \<or> BUILDING_TYPES t \<noteq> None \<longrightarrow>
      buildNew t now s = Inr s
      \<or> (\<exists>cost duration. queue s = None \<and> calculateCost t 1 = Inr cost
            \<and> calculateTime t 1 = Inr duration \<and> hasResources cost s
            \<and> buildNew t now s =
                Inr (deductResources cost s
                      \<lparr> queue := Some \<lparr> startTime = now, endTime = now + duration,
                                        q_type = t, targetIndex = None, q_level = 1 \<rparr> \<rparr>)))
   \<and> (queue s \<noteq> None
        \<or> (\<exists>b. at_index (buildings s) i = Some b \<and> BUILDING_TYPES (b_type b) \<noteq> None) \<longrightarrow>
      upgradeBuilding i now s = Inr s
      \<or> (\<exists>b cost duration. queue s = None \<and> at_index (buildings s) i = Some b
            \<and> calculateCost (b_type b) (b_level b + 1) = Inr cost
            \<and> calculateTime (b_type b) (b_level b + 1) = Inr duration \<and> hasResources cost s
            \<and> upgradeBuilding i now s =
                Inr (deductResources cost s
                      \<lparr> queue := Some \<lparr> startTime = now, endTime = now + duration,
                                        q_type = b_type b, targetIndex = Some i,
                                        q_level = b_level b + 1 \<rparr> \<rparr>)))
   \<and> (trainTroop now s = s
        \<or> trainingQueue s = None \<and> hasResources TRAIN_COST s
          \<and> trainTroop now s =
              deductResources TRAIN_COST s
                \<lparr> trainingQueue := Some \<lparr> startTime = now,
                                         endTime = now + calculateTrainingDuration s \<rparr> \<rparr>)
   \<and> (raid rnd now s = s
        \<or> raidQueue s = None \<and> 5 \<le> troops s
          \<and> raid rnd now s =
              s \<lparr> troops := troops s - 5,
                  raidQueue := Some \<lparr> startTime = now, endTime = now + 30000,
                                     reward = (\<lambda>res. Some (roll rnd res)) \<rparr> \<rparr>)
   \<and> (queue s = None \<and> BUILDING_TYPES t = None \<longrightarrow> buildNew t now s = Inl TypeError)
   \<and> (queue s = None \<and> at_index (buildings s) i = None \<longrightarrow>
        upgradeBuilding i now s = Inl TypeError)"
proof -
  have build: "buildNew t now s = Inr s
      \<or> (\<exists>cost duration. queue s = None \<and> calculateCost t 1 = Inr cost
            \<and> calculateTime t 1 = Inr duration \<and> hasResources cost s
            \<and> buildNew t now s =
                Inr (deductResources cost s
                      \<lparr> queue := Some \<lparr> startTime = now, endTime = now + duration,
                                        q_type = t, targetIndex = None, q_level = 1 \<rparr> \<rparr>))"
    if "queue s \<noteq> None \<or> BUILDING_TYPES t \<noteq> None"
  proof (cases "queue s")
    case (Some q)
    then show ?thesis by (simp add: buildNew_busy)
  next
    case None
    with that obtain d where d: "BUILDING_TYPES t = Some d" by auto
    from buildNew_known [OF None d, of now] obtain cost duration where
      c: "calculateCost t 1 = Inr cost" "calculateTime t 1 = Inr duration"
      "buildNew t now s =
               (if hasResources cost s
                then Inr (deductResources cost s
                       \<lparr> queue := Some \<lparr> startTime = now, endTime = now + duration,
                                         q_type = t, targetIndex = None, q_level = 1 \<rparr> \<rparr>)
                else Inr s)"
      by blast
    show ?thesis
    proof (cases "hasResources cost s")
      case True
      then show ?thesis using c None by auto
    next
      case False
      then show ?thesis using c(3) by simp
    qed
  qed
  have upgrade: "upgradeBuilding i now s = Inr s
      \<or> (\<exists>b cost duration. queue s = None \<and> at_index (buildings s) i = Some b
            \<and> calculateCost (b_type b) (b_level b + 1) = Inr cost
            \<and> calculateTime (b_type b) (b_level b + 1) = Inr duration \<and> hasResources cost s
            \<and> upgradeBuilding i now s =
                Inr (deductResources cost s
                      \<lparr> queue := Some \<lparr> startTime = now, endTime = now + duration,
                                        q_type = b_type b, targetIndex = Some i,
                                        q_level = b_level b + 1 \<rparr> \<rparr>))"
    if "queue s \<noteq> None
        \<or> (\<exists>b. at_index (buildings s) i = Some b \<and> BUILDING_TYPES (b_type b) \<noteq> None)"
  proof (cases "queue s")
    case (Some q)
    then show ?thesis by (simp add: upgradeBuilding_busy)
  next
    case None
    with that obtain b d where b: "at_index (buildings s) i = Some b"
      and d: "BUILDING_TYPES (b_type b) = Some d" by auto
    from upgradeBuilding_known [OF None b d, of now] obtain cost duration where
      c: "calculateCost (b_type b) (b_level b + 1) = Inr cost"
      "calculateTime (b_type b) (b_level b + 1) = Inr duration"
      "upgradeBuilding i now s =
               (if hasResources cost s
                then Inr (deductResources cost s
                       \<lparr> queue := Some \<lparr> startTime = now, endTime = now + duration,
                                         q_type = b_type b, targetIndex = Some i,
                                         q_level = b_level b + 1 \<rparr> \<rparr>)
                else Inr s)"
      by blast
    show ?thesis
    proof (cases "hasResources cost s")
      case True
      then show ?thesis using c None b by auto
    next
      case False
      then show ?thesis using c(3) by simp
    qed
  qed
  have train: "trainTroop now s = s
        \<or> trainingQueue s = None \<and> hasResources TRAIN_COST s
          \<and> trainTroop now s =
              deductResources TRAIN_COST s
                \<lparr> trainingQueue := Some \<lparr> startTime = now,
                                         endTime = now + calculateTrainingDuration s \<rparr> \<rparr>"
    by (simp add: trainTroop_cases)
  have send: "raid rnd now s = s
        \<or> raidQueue s = None \<and> 5 \<le> troops s
          \<and> raid rnd now s =
              s \<lparr> troops := troops s - 5,
                  raidQueue := Some \<lparr> startTime = now, endTime = now + 30000,
                                     reward = (\<lambda>res. Some (roll rnd res)) \<rparr> \<rparr>"
    by (simp add: raid_cases)
  have e1: "queue s = None \<and> BUILDING_TYPES t = None \<longrightarrow> buildNew t now s = Inl TypeError"
    by (simp add: buildNew_unknown)
  have e2: "queue s = None \<and> at_index (buildings s) i = None \<longrightarrow>
        upgradeBuilding i now s = Inl TypeError"
    by (simp add: upgradeBuilding_outside)
  show ?thesis
    by (intro conjI impI [OF build] impI [OF upgrade] train send e1 e2)
qed


theorem commands_start_or_noop_witness:
  "BUILDING_TYPES ''farm'' \<noteq> None
   \<and> (\<exists>b. at_index (buildings village) 0 = Some b \<and> BUILDING_TYPES (b_type b) \<noteq> None)
   \<and> (\<exists>s'. buildNew ''farm'' 0 village = Inr s' \<and> queue s' \<noteq> None \<and> resources s' Wood = 30)
   \<and> upgradeBuilding 0 0 village = Inr village
   \<and> trainingQueue (trainTroop 0 village) \<noteq> None
   \<and> raid (\<lambda>res. 0) 0 village = village
   \<and> queue village = None \<and> BUILDING_TYPES ''castle'' = None
   \<and> at_index (buildings village) 5 = None
   \<and> buildNew ''castle'' 0 village = Inl TypeError
   \<and> upgradeBuilding 5 0 village = Inl TypeError"
proof -
  let ?w3 = "\<lparr> b_type = ''woodcutter'', b_level = 3 \<rparr>"
  have f: "BUILDING_TYPES ''farm'' = Some farm" "BUILDING_TYPES ''castle'' = None"
    "BUILDING_TYPES (b_type ?w3) = Some woodcutter"
    "BUILDING_TYPES ''woodcutter'' = Some woodcutter"
    by (simp_all add: BUILDING_TYPES_def)
  have v: "queue village = None" "trainingQueue village = None" "troops village = 0"
    "resources village = obj 50 50 50"
    "at_index (buildings village) 0 = Some ?w3"
    "at_index (buildings village) 5 = None"
    by (simp_all add: village_def DEFAULT_STATE_def at_index_def)
  have farm_cost: "calculateCost ''farm'' 1 = Inr (obj 20 10 0)"
    using calculateCost_level_one [OF f(1)] by (simp add: farm_def)
  have build: "\<exists>s'. buildNew ''farm'' 0 village = Inr s' \<and> queue s' \<noteq> None
                 \<and> resources s' Wood = 30"
    using buildNew_known [OF v(1) f(1), of 0] v(4) farm_cost
    by (auto simp: hasResources_iff deductResources_pool)
  have wood4: "cost Stone = 68" if "calculateCost (b_type ?w3) (b_level ?w3 + 1) = Inr cost" for cost
    using that
    by (auto simp: calculateCost_known [OF f(4)] woodcutter_def Math_ceil_def Math_pow_def
          power_divide ceiling_eq_iff)
  have upgrade: "upgradeBuilding 0 0 village = Inr village"
    using upgradeBuilding_known [OF v(1) v(5) f(3), of 0] wood4 v(4)
    by (auto simp: hasResources_iff)
  have train: "trainingQueue (trainTroop 0 village) \<noteq> None"
    using v by (simp add: trainTroop_cases hasResources_iff TRAIN_COST_def)
  show ?thesis
    using commands_start_or_noop [of village "''farm''" 0 0 "\<lambda>res. 0"]
      commands_start_or_noop [of village "''castle''" 0 5 "\<lambda>res. 0"]
      build upgrade train f v
    by simp
qed

subsection \<open>Non-negative resources and troops\<close>

lemma nonneg_iff: "nonneg s \<longleftrightarrow> (\<forall>res. 0 \<le> resources s res) \<and> 0 \<le> troops s"
proof -
  have "(\<forall>res. 0 \<le> resources s res)
          \<longleftrightarrow> 0 \<le> resources s Wood \<and> 0 \<le> resources s Stone \<and> 0 \<le> resources s Food"
    by (metis resource.exhaust)
  then show ?thesis by (simp add: nonneg_def resource_keys_def)
qed

lemma reward_ok_iff:
  "reward_ok s \<longleftrightarrow> (\<forall>q. raidQueue s = Some q \<longrightarrow> (\<forall>res. 0 \<le> reward_amount (reward q) res))"
proof -
  have "(\<forall>res. 0 \<le> f res) \<longleftrightarrow> 0 \<le> f Wood \<and> 0 \<le> f Stone \<and> 0 \<le> f Food"
    for f :: "resource \<Rightarrow> rat"
    by (metis resource.exhaust)
  then show ?thesis by (simp add: reward_ok_def resource_keys_def split: option.splits)
qed

lemma levels_ok_iff:
  "levels_ok s \<longleftrightarrow> list_all (\<lambda>b. 1 \<le> b_level b) (buildings s)
                     \<and> (\<forall>q. queue s = Some q \<longrightarrow> 1 \<le> q_level q)"
  by (simp add: levels_ok_def split: option.splits)

lemma wf_state_iff:
  "wf_state s \<longleftrightarrow> list_all (\<lambda>b. BUILDING_TYPES (b_type b) \<noteq> None) (buildings s)
     \<and> (\<forall>q. queue s = Some q \<longrightarrow> BUILDING_TYPES (q_type q) \<noteq> None
           \<and> (\<forall>i. targetIndex q = Some i \<longrightarrow> 0 \<le> i \<and> i < int (length (buildings s))))"
  by (simp add: wf_state_def known_buildings_def split: option.splits)

lemma producer_rate_pos: "producer_of r b \<Longrightarrow> 0 < base_rate b"
  by (auto simp: producer_of_def base_rate_def split: option.splits)

lemma accrual_spec_nonneg:
  assumes "0 \<le> d" and "list_all (\<lambda>b. 1 \<le> b_level b) bs"
  shows "0 \<le> accrual_spec d bs r"
  using assms(2)
proof (induction bs)
  case Nil
  show ?case by (simp add: accrual_spec_Nil)
next
  case (Cons b bs)
  have "0 \<le> base_rate b * of_int (b_level b) * d" if "producer_of r b"
  proof -
    have "0 \<le> base_rate b" using producer_rate_pos [OF that] by simp
    moreover have "0 \<le> rat_of_int (b_level b)" using Cons.prems by simp
    ultimately show ?thesis using assms(1) by simp
  qed
  then show ?case using Cons by (simp add: accrual_spec_Cons)
qed

lemma sound_default: "sound_state (DEFAULT_STATE t0) \<and> nonneg (DEFAULT_STATE t0)"
  by (simp add: sound_state_def wf_state_iff levels_ok_iff reward_ok_iff nonneg_iff
        DEFAULT_STATE_def)
    (metis resource.exhaust obj.simps zero_le_numeral)


lemma list_all_update: "list_all P xs \<Longrightarrow> P y \<Longrightarrow> list_all P (xs [n := y])"
  by (induction xs arbitrary: n) (auto split: nat.splits)

lemma sound_state_frame:
  assumes "buildings s' = buildings s" and "queue s' = queue s" and "raidQueue s' = raidQueue s"
  shows "sound_state s' = sound_state s"
  using assms by (simp add: sound_state_def wf_state_iff levels_ok_iff reward_ok_iff)

lemma inv_updateResources:
  assumes "sound_state s" and "nonneg s"
  shows "\<exists>s'. updateResources now s = Inr s' \<and> sound_state s' \<and> nonneg s'"
proof (cases "(now - lastUpdate s) / 1000 \<le> 0")
  case True
  then show ?thesis using assms by (simp add: updateResources_noop)
next
  case False
  then have d: "0 < (now - lastUpdate s) / 1000" by simp
  have k: "known_buildings s" using assms(1) by (simp add: sound_state_def wf_state_def)
  have l: "list_all (\<lambda>b. 1 \<le> b_level b) (buildings s)"
    using assms(1) by (simp add: sound_state_def levels_ok_iff)
  let ?s' = "s \<lparr> resources := \<lambda>r. resources s r
                 + accrual_spec ((now - lastUpdate s) / 1000) (buildings s) r,
               lastUpdate := now \<rparr>"
  have "sound_state ?s' = sound_state s" by (rule sound_state_frame) simp_all
  moreover have "nonneg ?s'"
    using assms(2) accrual_spec_nonneg [OF less_imp_le [OF d] l]
    by (simp add: nonneg_iff)
  ultimately show ?thesis
    using assms(1) updateResources_closed_form [OF k d] by simp
qed

lemma inv_checkQueue:
  assumes "sound_state s" and "nonneg s"
  shows "\<exists>s'. checkQueue now s = Inr s' \<and> sound_state s' \<and> nonneg s'"
proof (cases "queue s")
  case None
  then show ?thesis using assms by (simp add: checkQueue_def)
next
  case (Some q)
  show ?thesis
  proof (cases "endTime q \<le> now")
    case False
    then show ?thesis using assms Some by (simp add: checkQueue_def)
  next
    case True
    have q: "BUILDING_TYPES (q_type q) \<noteq> None" "1 \<le> q_level q"
      using assms(1) Some by (simp_all add: sound_state_def wf_state_iff levels_ok_iff)
    have bs: "list_all (\<lambda>b. BUILDING_TYPES (b_type b) \<noteq> None) (buildings s)"
      "list_all (\<lambda>b. 1 \<le> b_level b) (buildings s)"
      using assms(1) by (simp_all add: sound_state_def wf_state_iff levels_ok_iff)
    have r: "reward_ok s" using assms(1) by (simp add: sound_state_def)
    show ?thesis
    proof (cases "targetIndex q")
      case None
      let ?s' = "s \<lparr> buildings := buildings s @ [\<lparr> b_type = q_type q, b_level = q_level q \<rparr>],
                    queue := None \<rparr>"
      have "sound_state ?s'"
        using q bs r by (simp add: sound_state_def wf_state_iff levels_ok_iff reward_ok_iff)
      moreover have "nonneg ?s'" using assms(2) by (simp add: nonneg_iff)
      ultimately show ?thesis
        unfolding checkQueue_new_building [OF Some None True] by simp
    next
      case (Some i)
      have i: "0 \<le> i" "i < int (length (buildings s))"
        using assms(1) \<open>queue s = Some q\<close> Some by (simp_all add: sound_state_def wf_state_iff)
      have n: "nat i < length (buildings s)" using i by linarith
      let ?b = "(buildings s ! nat i) \<lparr> b_level := q_level q \<rparr>"
      let ?s' = "s \<lparr> buildings := (buildings s) [nat i := ?b], queue := None \<rparr>"
      have "BUILDING_TYPES (b_type (buildings s ! nat i)) \<noteq> None"
        using bs(1) n by (simp add: list_all_length)
      then have "list_all (\<lambda>b. BUILDING_TYPES (b_type b) \<noteq> None) ((buildings s) [nat i := ?b])"
        by (intro list_all_update bs(1)) simp
      moreover have "list_all (\<lambda>b. 1 \<le> b_level b) ((buildings s) [nat i := ?b])"
        using q(2) by (intro list_all_update bs(2)) simp
      ultimately have "sound_state ?s'"
        using r by (simp add: sound_state_def wf_state_iff levels_ok_iff reward_ok_iff)
      moreover have "nonneg ?s'" using assms(2) by (simp add: nonneg_iff)
      ultimately show ?thesis
        unfolding checkQueue_upgrade [OF \<open>queue s = Some q\<close> Some True i] by simp
    qed
  qed
qed

lemma inv_checkTrainingQueue:
  assumes "sound_state s" and "nonneg s"
  shows "sound_state (checkTrainingQueue now s) \<and> nonneg (checkTrainingQueue now s)"
proof -
  have "sound_state (checkTrainingQueue now s) = sound_state s"
    by (rule sound_state_frame) (simp_all add: checkTrainingQueue_def split: option.splits)
  moreover have "nonneg (checkTrainingQueue now s)"
    using assms(2) by (simp add: nonneg_iff checkTrainingQueue_def split: option.splits)
  ultimately show ?thesis using assms(1) by simp
qed

lemma inv_checkRaidQueue:
  assumes "sound_state s" and "nonneg s"
  shows "sound_state (checkRaidQueue now s) \<and> nonneg (checkRaidQueue now s)"
proof (cases "raidQueue s")
  case None
  then show ?thesis using assms by (simp add: checkRaidQueue_def)
next
  case (Some q)
  show ?thesis
  proof (cases "endTime q \<le> now")
    case False
    then show ?thesis using assms Some by (simp add: checkRaidQueue_def)
  next
    case True
    have rw: "0 \<le> reward_amount (reward q) res" for res
      using assms(1) Some by (simp add: sound_state_def reward_ok_iff)
    have "sound_state (checkRaidQueue now s)"
      using assms(1) unfolding checkRaidQueue_due [OF Some True]
      by (simp add: sound_state_def wf_state_iff levels_ok_iff reward_ok_iff)
    moreover have "nonneg (checkRaidQueue now s)"
      using assms(2) rw unfolding checkRaidQueue_due [OF Some True]
      by (simp add: nonneg_iff)
    ultimately show ?thesis by simp
  qed
qed


lemma nonneg_deductResources:
  assumes "nonneg s" and "hasResources cost s"
  shows "nonneg (deductResources cost s \<lparr> queue := q \<rparr>)"
    and "nonneg (deductResources cost s \<lparr> trainingQueue := tq \<rparr>)"
proof -
  have "0 \<le> resources s res - cost res" for res
    using assms(2) by (cases res) (simp_all add: hasResources_iff)
  then show "nonneg (deductResources cost s \<lparr> queue := q \<rparr>)"
    and "nonneg (deductResources cost s \<lparr> trainingQueue := tq \<rparr>)"
    using assms(1) by (simp_all add: nonneg_iff deductResources_pool deductResources_frame)
qed

lemma sound_state_start_job:
  assumes "sound_state s" and "BUILDING_TYPES (q_type q) \<noteq> None" and "1 \<le> q_level q"
    and "\<forall>i. targetIndex q = Some i \<longrightarrow> 0 \<le> i \<and> i < int (length (buildings s))"
  shows "sound_state (deductResources cost s \<lparr> queue := Some q \<rparr>)"
  using assms
  by (simp add: sound_state_def wf_state_iff levels_ok_iff reward_ok_iff deductResources_frame)

lemma inv_buildNew:
  assumes "sound_state s" and "nonneg s" and "\<not> misuse (BuildNew t) s"
  shows "\<exists>s'. buildNew t now s = Inr s' \<and> sound_state s' \<and> nonneg s'"
proof (cases "queue s")
  case (Some q)
  then show ?thesis using assms by (simp add: buildNew_busy)
next
  case None
  with assms(3) obtain d where d: "BUILDING_TYPES t = Some d" by auto
  from buildNew_known [OF None d, of now] obtain cost duration where
    c: "buildNew t now s =
               (if hasResources cost s
                then Inr (deductResources cost s
                       \<lparr> queue := Some \<lparr> startTime = now, endTime = now + duration,
                                         q_type = t, targetIndex = None, q_level = 1 \<rparr> \<rparr>)
                else Inr s)"
    by blast
  show ?thesis
  proof (cases "hasResources cost s")
    case False
    then show ?thesis using c assms by simp
  next
    case True
    let ?q = "\<lparr> startTime = now, endTime = now + duration,
                q_type = t, targetIndex = None, q_level = 1 \<rparr>"
    have "sound_state (deductResources cost s \<lparr> queue := Some ?q \<rparr>)"
      using d by (intro sound_state_start_job assms(1)) simp_all
    then show ?thesis
      using c True nonneg_deductResources(1) [OF assms(2) True] by simp
  qed
qed

lemma at_index_Some:
  assumes "at_index xs i = Some x"
  shows "0 \<le> i \<and> i < int (length xs)" and "x \<in> set xs"
  using assms by (auto simp: at_index_def split: if_splits)

lemma inv_upgradeBuilding:
  assumes "sound_state s" and "nonneg s" and "\<not> misuse (UpgradeBuilding i) s"
  shows "\<exists>s'. upgradeBuilding i now s = Inr s' \<and> sound_state s' \<and> nonneg s'"
proof (cases "queue s")
  case (Some q)
  then show ?thesis using assms by (simp add: upgradeBuilding_busy)
next
  case None
  with assms(3) obtain b where b: "at_index (buildings s) i = Some b" by auto
  note bi = at_index_Some [OF b]
  have "list_all (\<lambda>b. BUILDING_TYPES (b_type b) \<noteq> None) (buildings s)"
    "list_all (\<lambda>b. 1 \<le> b_level b) (buildings s)"
    using assms(1) by (simp_all add: sound_state_def wf_state_iff levels_ok_iff)
  with bi(2) have kb: "BUILDING_TYPES (b_type b) \<noteq> None" and lb: "1 \<le> b_level b"
    by (auto simp: list_all_iff)
  then obtain d where d: "BUILDING_TYPES (b_type b) = Some d" by auto
  from upgradeBuilding_known [OF None b d, of now] obtain cost duration where
    c: "upgradeBuilding i now s =
               (if hasResources cost s
                then Inr (deductResources cost s
                       \<lparr> queue := Some \<lparr> startTime = now, endTime = now + duration,
                                         q_type = b_type b, targetIndex = Some i,
                                         q_level = b_level b + 1 \<rparr> \<rparr>)
                else Inr s)"
    by blast
  show ?thesis
  proof (cases "hasResources cost s")
    case False
    then show ?thesis using c assms by simp
  next
    case True
    let ?q = "\<lparr> startTime = now, endTime = now + duration,
                q_type = b_type b, targetIndex = Some i, q_level = b_level b + 1 \<rparr>"
    have "sound_state (deductResources cost s \<lparr> queue := Some ?q \<rparr>)"
      using kb lb bi(1) by (intro sound_state_start_job assms(1)) simp_all
    then show ?thesis
      using c True nonneg_deductResources(1) [OF assms(2) True] by simp
  qed
qed

lemma inv_trainTroop:
  assumes "sound_state s" and "nonneg s"
  shows "sound_state (trainTroop now s) \<and> nonneg (trainTroop now s)"
proof (cases "trainingQueue s = None \<and> hasResources TRAIN_COST s")
  case False
  then have "trainTroop now s = s" by (auto simp: trainTroop_cases)
  then show ?thesis using assms by simp
next
  case True
  let ?s' = "deductResources TRAIN_COST s
             \<lparr> trainingQueue := Some \<lparr> startTime = now,
                                      endTime = now + calculateTrainingDuration s \<rparr> \<rparr>"
  have "sound_state ?s' = sound_state s"
    by (rule sound_state_frame) (simp_all add: deductResources_frame)
  then show ?thesis
    using True assms(1) nonneg_deductResources(2) [OF assms(2)]
    by (simp add: trainTroop_cases)
qed

lemma roll_nonneg:
  assumes "unit_draws rnd"
  shows "0 \<le> roll rnd res"
proof -
  from roll_in_range [OF assms, of res] obtain n where
    n: "roll rnd res = of_int n" "fst (RAID_REWARD_RANGES res) \<le> of_int n" by blast
  have "0 \<le> fst (RAID_REWARD_RANGES res)" by (cases res) simp_all
  then show ?thesis using n by simp
qed

lemma inv_raid:
  assumes "sound_state s" and "nonneg s" and "unit_draws rnd"
  shows "sound_state (raid rnd now s) \<and> nonneg (raid rnd now s)"
proof (cases "raidQueue s = None \<and> 5 \<le> troops s")
  case False
  then have "raid rnd now s = s" by (auto simp: raid_cases)
  then show ?thesis using assms by simp
next
  case True
  then show ?thesis
    using assms(1,2) roll_nonneg [OF assms(3)]
    by (simp add: raid_cases sound_state_def wf_state_iff levels_ok_iff reward_ok_iff
          nonneg_iff reward_amount_def)
qed

lemma misuse_raises:
  assumes "misuse opn s"
  shows "perform opn now s = Inl TypeError"
  using assms by (cases opn) (simp_all add: buildNew_unknown upgradeBuilding_outside)

lemma inv_perform:
  assumes "sound_state s" and "nonneg s" and "fair_draws opn" and "\<not> misuse opn s"
  shows "\<exists>s'. perform opn now s = Inr s' \<and> sound_state s' \<and> nonneg s'"
proof (cases opn)
  case UpdateResources
  then show ?thesis using inv_updateResources [OF assms(1,2)] by simp
next
  case CheckQueue
  then show ?thesis using inv_checkQueue [OF assms(1,2)] by simp
next
  case CheckTrainingQueue
  then show ?thesis using inv_checkTrainingQueue [OF assms(1,2)] by simp
next
  case CheckRaidQueue
  then show ?thesis using inv_checkRaidQueue [OF assms(1,2)] by simp
next
  case (BuildNew t)
  then show ?thesis using inv_buildNew [OF assms(1,2)] assms(4) by simp
next
  case (UpgradeBuilding i)
  then show ?thesis using inv_upgradeBuilding [OF assms(1,2)] assms(4) by simp
next
  case TrainTroop
  then show ?thesis using inv_trainTroop [OF assms(1,2)] by simp
next
  case (Raid rnd)
  then show ?thesis using inv_raid [OF assms(1,2)] assms(3) by simp
qed

lemma inv_run_ops:
  assumes "sound_state s" and "nonneg s" and "list_all (\<lambda>(opn, now). fair_draws opn) ops"
  shows "sound_state (run_ops ops s) \<and> nonneg (run_ops ops s)"
  using assms
proof (induction ops arbitrary: s)
  case Nil
  then show ?case by simp
next
  case (Cons x ops)
  obtain opn now where x: "x = (opn, now)" by (cases x)
  have fair: "fair_draws opn" "list_all (\<lambda>(opn, now). fair_draws opn) ops"
    using Cons.prems(3) x by simp_all
  show ?case
  proof (cases "misuse opn s")
    case True
    then show ?thesis
      using Cons.IH [OF Cons.prems(1,2) fair(2)] by (simp add: x misuse_raises)
  next
    case False
    from inv_perform [OF Cons.prems(1,2) fair(1) False, of now] obtain s' where
      s': "perform opn now s = Inr s'" "sound_state s'" "nonneg s'" by blast
    then show ?thesis using Cons.IH [OF s'(2,3) fair(2)] by (simp add: x)
  qed
qed


text \<open>
  Claim C9 fails as stated: the two bounds alone are not kept by the operations. A stored
  state with an empty pool and a pending raid whose reward holds \<open>- 10\<close> wood satisfies
  both bounds, and reconciling the raid leaves \<open>- 10\<close> wood.
\<close>

theorem nonneg_alone_counterexample:
  "resources indebted Wood = 0 \<and> resources indebted Stone = 0 \<and> resources indebted Food = 0
   \<and> troops indebted = 0 \<and> nonneg indebted
   \<and> resources (checkRaidQueue 30000 indebted) Wood = - 10
   \<and> \<not> nonneg (checkRaidQueue 30000 indebted)"
proof -
  have q: "raidQueue indebted = Some \<lparr> startTime = 0, endTime = 30000,
                         reward = (\<lambda>res. Some (obj (- 10) 0 0 res)) \<rparr>"
    by (simp add: indebted_def)
  have r: "resources indebted = obj 0 0 0" "troops indebted = 0"
    by (simp_all add: indebted_def DEFAULT_STATE_def)
  have w: "resources (checkRaidQueue 30000 indebted) Wood = - 10"
    by (simp add: checkRaidQueue_due [OF q] r reward_amount_def)
  then have "\<not> nonneg (checkRaidQueue 30000 indebted)"
    by (simp add: nonneg_def resource_keys_def)
  then show ?thesis using r w by (simp add: nonneg_def resource_keys_def)
qed

text \<open>
  Claim C9, amended. The default state is well formed (known building types, the target
  index of an upgrade job inside the building list, levels of at least 1 in the building
  list and in the construction job, no negative amount in a pending raid reward) and has
  non-negative resources and troops. From any such state, each of the eight core
  operations (the raid with draws from 0 to below 1) returns a state that is again well
  formed with non-negative resources and troops; the only exceptions are \<open>buildNew\<close> of an
  unknown type and \<open>upgradeBuilding\<close> of an index outside the building list on an idle
  construction queue, which throw. Hence every state reached from the default state by
  the operations has non-negative resources and troops.
\<close>

theorem nonneg_invariant:
  "sound_state (DEFAULT_STATE t0) \<and> nonneg (DEFAULT_STATE t0)
   \<and> (sound_state s \<and> nonneg s \<and> fair_draws opn \<longrightarrow>
        (if misuse opn s then perform opn now s = Inl TypeError
         else \<exists>s'. perform opn now s = Inr s' \<and> sound_state s'
                \<and> (\<forall>res. 0 \<le> resources s' res) \<and> 0 \<le> troops s'))
   \<and> (list_all (\<lambda>(opn, now). fair_draws opn) ops \<longrightarrow>
        (\<forall>res. 0 \<le> resources (run_ops ops (DEFAULT_STATE t0)) res)
        \<and> 0 \<le> troops (run_ops ops (DEFAULT_STATE t0)))"
proof -
  have step: "if misuse opn s then perform opn now s = Inl TypeError
         else \<exists>s'. perform opn now s = Inr s' \<and> sound_state s'
                \<and> (\<forall>res. 0 \<le> resources s' res) \<and> 0 \<le> troops s'"
    if "sound_state s \<and> nonneg s \<and> fair_draws opn"
  proof (cases "misuse opn s")
    case True
    then show ?thesis by (simp add: misuse_raises)
  next
    case False
    have h: "sound_state s" "nonneg s" "fair_draws opn" using that by blast+
    from inv_perform [OF h False, of now] show ?thesis
      using False by (simp add: nonneg_iff)
  qed
  have run: "(\<forall>res. 0 \<le> resources (run_ops ops (DEFAULT_STATE t0)) res)
        \<and> 0 \<le> troops (run_ops ops (DEFAULT_STATE t0))"
    if "list_all (\<lambda>(opn, now). fair_draws opn) ops"
    using inv_run_ops [OF conjunct1 [OF sound_default] conjunct2 [OF sound_default] that, of t0]
    by (simp add: nonneg_iff)
  have step_imp: "sound_state s \<and> nonneg s \<and> fair_draws opn \<longrightarrow>
        (if misuse opn s then perform opn now s = Inl TypeError
         else \<exists>s'. perform opn now s = Inr s' \<and> sound_state s'
                \<and> (\<forall>res. 0 \<le> resources s' res) \<and> 0 \<le> troops s')"
    by (rule impI) (rule step)
  have run_imp: "list_all (\<lambda>(opn, now). fair_draws opn) ops \<longrightarrow>
        (\<forall>res. 0 \<le> resources (run_ops ops (DEFAULT_STATE t0)) res)
        \<and> 0 \<le> troops (run_ops ops (DEFAULT_STATE t0))"
    by (rule impI) (rule run)
  from sound_default [of t0] step_imp run_imp show ?thesis by (simp only: simp_thms)
qed

theorem nonneg_invariant_witness:
  "sound_state busy_village \<and> nonneg busy_village \<and> fair_draws CheckRaidQueue
   \<and> \<not> misuse CheckRaidQueue busy_village
   \<and> (\<exists>s'. perform CheckRaidQueue 30000 busy_village = Inr s'
          \<and> (\<forall>res. 0 \<le> resources s' res) \<and> 0 \<le> troops s')
   \<and> 0 \<le> resources (run_ops [(BuildNew ''woodcutter'', 0), (UpdateResources, 6000),
            (CheckQueue, 6000), (TrainTroop, 7000), (Raid (\<lambda>res. 1 / 2), 8000)]
          (DEFAULT_STATE 0)) Stone"
proof -
  have s: "sound_state busy_village"
    by (simp add: sound_state_def wf_state_iff levels_ok_iff reward_ok_iff busy_village_def
          village_def DEFAULT_STATE_def BUILDING_TYPES_def reward_amount_def)
      (metis resource.exhaust obj.simps zero_le_numeral)
  have n: "nonneg busy_village"
    by (simp add: nonneg_def resource_keys_def busy_village_def village_def DEFAULT_STATE_def)
  have f: "list_all (\<lambda>(opn, now). fair_draws opn)
             [(BuildNew ''woodcutter'', 0), (UpdateResources, 6000),
              (CheckQueue, 6000), (TrainTroop, 7000), (Raid (\<lambda>res. 1 / 2 :: rat), 8000 :: rat)]"
    by (simp add: unit_draws_def resource_keys_def)
  show ?thesis
    using nonneg_invariant [of 0 busy_village CheckRaidQueue 30000
        "[(BuildNew ''woodcutter'', 0), (UpdateResources, 6000),
          (CheckQueue, 6000), (TrainTroop, 7000), (Raid (\<lambda>res. 1 / 2), 8000)]"] s n f
    by simp
qed

end
